theory Spec2Isabelle
  imports Main "HOL-Library.Word"
begin

unbundle bit_operations_syntax

section \<open>Event values of an EVTX event record (libevtx_event_values.c)\<close>

subsection \<open>Machine types\<close>

text \<open>
  The C types of the source on an LP64 platform: \<^verbatim>\<open>uint8_t\<close>, \<^verbatim>\<open>uint32_t\<close>,
  \<^verbatim>\<open>uint64_t\<close> and \<^verbatim>\<open>size_t\<close> (64 bits). Arithmetic on them wraps around.
\<close>

type_synonym uint8_t = "8 word"
type_synonym uint32_t = "32 word"
type_synonym uint64_t = "64 word"
type_synonym size_t = "64 word"

definition SSIZE_MAX :: size_t where
  "SSIZE_MAX = 0x7FFFFFFFFFFFFFFF"

subsection \<open>Errors\<close>

text \<open>
  One constructor for each \<^verbatim>\<open>liberror_error_set\<close> site of the source; the comment
  gives the liberror domain and code. \<open>Read_Outside_Buffer\<close> is not a liberror code:
  it stands for the undefined behaviour of a C read outside the chunk buffer.
\<close>

datatype error =
    Invalid_Event_Values            \<comment> \<open>ARGUMENTS, INVALID_VALUE: event values is NULL\<close>
  | Invalid_IO_Handle               \<comment> \<open>ARGUMENTS, INVALID_VALUE: IO handle is NULL\<close>
  | Invalid_Chunk_Data              \<comment> \<open>ARGUMENTS, INVALID_VALUE: chunk data is NULL\<close>
  | Data_Size_Exceeds_Maximum       \<comment> \<open>ARGUMENTS, VALUE_EXCEEDS_MAXIMUM\<close>
  | Offset_Out_Of_Bounds            \<comment> \<open>ARGUMENTS, VALUE_OUT_OF_BOUNDS: offset beyond the chunk\<close>
  | Data_Size_Too_Small             \<comment> \<open>RUNTIME, VALUE_OUT_OF_BOUNDS: "value too small"\<close>
  | Unsupported_Signature           \<comment> \<open>RUNTIME, UNSUPPORTED_VALUE\<close>
  | Size_Out_Of_Bounds              \<comment> \<open>RUNTIME, VALUE_OUT_OF_BOUNDS: "value out of bounds"\<close>
  | Token_Initialize_Failed         \<comment> \<open>RUNTIME, INITIALIZE_FAILED\<close>
  | Token_Read_Failed               \<comment> \<open>IO, READ_FAILED\<close>
  | Token_Free_Failed               \<comment> \<open>RUNTIME, FINALIZE_FAILED\<close>
  | Read_Outside_Buffer             \<comment> \<open>undefined behaviour: read outside the buffer\<close>

text \<open>The C return value: 1 if successful, -1 on error.\<close>

definition return_code :: "error + 'a \<Rightarrow> int" where
  "return_code r = (case r of Inl e \<Rightarrow> - 1 | Inr v \<Rightarrow> 1)"

subsection \<open>The event values structure and its allocation\<close>

record event_values =
  size_ev :: uint32_t
  "identifier" :: uint64_t
  creation_time :: uint64_t

text \<open>
  \<^verbatim>\<open>libevtx_event_values_free\<close> takes the address of a pointer variable. The
  argument is \<open>None\<close> for a NULL address and \<open>Some target\<close> otherwise, where
  \<open>target\<close> is the content of the pointer variable: \<open>None\<close> for NULL, \<open>Some a\<close>
  for the address of an allocated structure. The heap maps the allocated
  addresses to their structures; \<^verbatim>\<open>memory_free\<close> removes the address.
\<close>

type_synonym address = nat
type_synonym heap = "address \<rightharpoonup> event_values"

definition memory_free :: "address \<Rightarrow> heap \<Rightarrow> heap" where
  "memory_free a heap = heap(a := None)"

definition libevtx_event_values_free ::
  "address option option \<Rightarrow> heap \<Rightarrow> (error + unit) \<times> address option option \<times> heap" where
  "libevtx_event_values_free event_values heap =
     (case event_values of
        None \<Rightarrow> (Inl Invalid_Event_Values, None, heap)
      | Some target \<Rightarrow>
          (case target of
             None \<Rightarrow> (Inr (), Some None, heap)
           | Some a \<Rightarrow> (Inr (), Some None, memory_free a heap)))"

subsection \<open>Reading the chunk buffer\<close>

text \<open>
  The chunk buffer is the list of its bytes. A read of \<open>n\<close> bytes at offset \<open>off\<close>
  is defined when it lies inside the buffer; outside, the C program has no defined
  behaviour and the model returns \<open>None\<close>.
\<close>

definition read_bytes :: "uint8_t list \<Rightarrow> nat \<Rightarrow> nat \<Rightarrow> uint8_t list option" where
  "read_bytes chunk_data off n =
     (if off + n \<le> length chunk_data then Some (take n (drop off chunk_data)) else None)"

text \<open>
  Modelled from the spec: the macros \<^verbatim>\<open>byte_stream_copy_to_uint32_little_endian\<close>
  and \<^verbatim>\<open>byte_stream_copy_to_uint64_little_endian\<close> of byte_stream.h, which is not
  among the sources. The value is built from the last byte down by shifting
  left by 8 and or-ing the next byte in: the first byte is the least significant.
\<close>

fun byte_stream_copy_little_endian :: "uint8_t list \<Rightarrow> 'a::len word" where
  "byte_stream_copy_little_endian [] = 0"
| "byte_stream_copy_little_endian (b # bs) =
     push_bit 8 (byte_stream_copy_little_endian bs) OR ucast b"

definition byte_stream_copy_to_uint32_little_endian ::
  "uint8_t list \<Rightarrow> nat \<Rightarrow> uint32_t option" where
  "byte_stream_copy_to_uint32_little_endian chunk_data off =
     map_option byte_stream_copy_little_endian (read_bytes chunk_data off 4)"

definition byte_stream_copy_to_uint64_little_endian ::
  "uint8_t list \<Rightarrow> nat \<Rightarrow> uint64_t option" where
  "byte_stream_copy_to_uint64_little_endian chunk_data off =
     map_option byte_stream_copy_little_endian (read_bytes chunk_data off 8)"

text \<open>
  The little-endian value of a byte sequence as the spec words it: byte \<open>i\<close>
  weighs \<open>256 ^ i\<close>.
\<close>

fun little_endian_value :: "uint8_t list \<Rightarrow> nat" where
  "little_endian_value [] = 0"
| "little_endian_value (b # bs) = unat b + 256 * little_endian_value bs"

subsection \<open>The event record header\<close>

text \<open>
  Modelled from the spec: the structure \<^verbatim>\<open>evtx_event_record_header_t\<close> of
  evtx_event_record.h, which is not among the sources. Its layout is the spec's
  table: signature (4 bytes at offset 0), size (4 bytes at 4), identifier
  (8 bytes at 8), creation time (8 bytes at 16); its size is 24 bytes.
\<close>

definition sizeof_evtx_event_record_header :: nat where
  "sizeof_evtx_event_record_header = 24"

definition signature_offset :: nat where "signature_offset = 0"
definition size_offset :: nat where "size_offset = 4"
definition identifier_offset :: nat where "identifier_offset = 8"
definition creation_time_offset :: nat where "creation_time_offset = 16"

definition evtx_event_record_signature :: "uint8_t list" where
  "evtx_event_record_signature = [0x2A, 0x2A, 0x00, 0x00]"

text \<open>
  The first part of \<^verbatim>\<open>libevtx_event_values_read\<close>, up to the token loop
  (lines 164 to 326). The pointer arguments are options (\<open>None\<close> is NULL);
  \<open>io_handle\<close> is only tested for NULL, so it is a boolean (non-NULL).
  The result is the event values structure as the call leaves it, and either
  the error or the pair of \<^verbatim>\<open>chunk_data_offset\<close> (advanced past the header) and
  \<^verbatim>\<open>event_record_data_size\<close> (the size less header and trailing copy).
  The steps are in the order of the source: the trailing copy of the size is
  read at \<^verbatim>\<open>event_record_data[ size - 4 ]\<close>, the index computed in 32 bits,
  before the size is checked.
\<close>

definition libevtx_event_values_read_header ::
  "event_values option \<Rightarrow> bool \<Rightarrow> uint8_t list option \<Rightarrow> size_t \<Rightarrow> size_t
     \<Rightarrow> event_values option \<times> (error + size_t \<times> size_t)" where
  "libevtx_event_values_read_header event_values io_handle chunk_data
       chunk_data_size chunk_data_offset =
     (case event_values of
        None \<Rightarrow> (None, Inl Invalid_Event_Values)
      | Some ev \<Rightarrow>
     if \<not> io_handle then (Some ev, Inl Invalid_IO_Handle) else
     (case chunk_data of
        None \<Rightarrow> (Some ev, Inl Invalid_Chunk_Data)
      | Some data \<Rightarrow>
     if chunk_data_size > SSIZE_MAX then (Some ev, Inl Data_Size_Exceeds_Maximum) else
     if chunk_data_offset \<ge> chunk_data_size then (Some ev, Inl Offset_Out_Of_Bounds) else
     let event_record_data = unat chunk_data_offset;
         event_record_data_size = chunk_data_size - chunk_data_offset in
     if event_record_data_size < of_nat (sizeof_evtx_event_record_header + 4)
     then (Some ev, Inl Data_Size_Too_Small) else
     (case read_bytes data (event_record_data + signature_offset) 4 of
        None \<Rightarrow> (Some ev, Inl Read_Outside_Buffer)
      | Some signature \<Rightarrow>
     if signature \<noteq> evtx_event_record_signature
     then (Some ev, Inl Unsupported_Signature) else
     (case byte_stream_copy_to_uint32_little_endian data (event_record_data + size_offset) of
        None \<Rightarrow> (Some ev, Inl Read_Outside_Buffer)
      | Some v_size \<Rightarrow>
     let ev1 = ev\<lparr>size_ev := v_size\<rparr> in
     (case byte_stream_copy_to_uint64_little_endian data
             (event_record_data + identifier_offset) of
        None \<Rightarrow> (Some ev1, Inl Read_Outside_Buffer)
      | Some v_identifier \<Rightarrow>
     let ev2 = ev1\<lparr>identifier := v_identifier\<rparr> in
     (case byte_stream_copy_to_uint64_little_endian data
             (event_record_data + creation_time_offset) of
        None \<Rightarrow> (Some ev2, Inl Read_Outside_Buffer)
      | Some v_creation_time \<Rightarrow>
     let ev3 = ev2\<lparr>creation_time := v_creation_time\<rparr> in
     (case byte_stream_copy_to_uint32_little_endian data
             (event_record_data + unat (size_ev ev3 - 4)) of
        None \<Rightarrow> (Some ev3, Inl Read_Outside_Buffer)
      | Some copy_of_size \<Rightarrow>
     if ucast (size_ev ev3) < (of_nat sizeof_evtx_event_record_header :: size_t)
        \<or> ucast (size_ev ev3) > event_record_data_size - 4
     then (Some ev3, Inl Size_Out_Of_Bounds) else
     (Some ev3,
      Inr (chunk_data_offset + of_nat sizeof_evtx_event_record_header,
           ucast (size_ev ev3) - of_nat (sizeof_evtx_event_record_header + 4))))))))))"

subsection \<open>The token loop\<close>

text \<open>
  The binary XML token functions of libevtx_binary_xml_token.c are not among the
  sources; they are parameters. Creating and freeing a token can fail at any
  iteration, so their outcome is given by the number of the iteration;
  reading a token at an offset of the chunk either fails or gives the token's
  \<^verbatim>\<open>size\<close>.
\<close>

record binary_xml_token_functions =
  libevtx_binary_xml_token_initialize :: "nat \<Rightarrow> bool"
  libevtx_binary_xml_token_read :: "uint8_t list \<Rightarrow> size_t \<Rightarrow> size_t \<Rightarrow> size_t option"
  libevtx_binary_xml_token_free :: "nat \<Rightarrow> bool"

text \<open>
  The loop of lines 343 to 390. It runs while \<^verbatim>\<open>chunk_data_offset\<close> is below
  \<^verbatim>\<open>chunk_data_size\<close>. The source keeps no token; \<open>tokens\<close> records the sizes of
  the tokens read so far, in order, so that the walk can be observed. The loop
  need not terminate: \<open>None\<close> is the walk that does not return.
\<close>

partial_function (option) walk_tokens ::
  "binary_xml_token_functions \<Rightarrow> uint8_t list \<Rightarrow> size_t \<Rightarrow> size_t \<Rightarrow> size_t list
     \<Rightarrow> (error + size_t list) option" where
  "walk_tokens token chunk_data chunk_data_size chunk_data_offset tokens =
     (if chunk_data_offset < chunk_data_size then
        if \<not> libevtx_binary_xml_token_initialize token (length tokens)
        then Some (Inl Token_Initialize_Failed)
        else
          (case libevtx_binary_xml_token_read token chunk_data chunk_data_size
                  chunk_data_offset of
             None \<Rightarrow> Some (Inl Token_Read_Failed)
           | Some token_size \<Rightarrow>
               if \<not> libevtx_binary_xml_token_free token (length tokens)
               then Some (Inl Token_Free_Failed)
               else walk_tokens token chunk_data chunk_data_size
                      (chunk_data_offset + token_size) (tokens @ [token_size]))
      else Some (Inr tokens))"

declare walk_tokens.simps [code]

subsection \<open>Reading the event values\<close>

text \<open>
  The whole of \<^verbatim>\<open>libevtx_event_values_read\<close>: the header part, then the token
  loop from the advanced offset. The result is \<open>None\<close> when the call does not
  return; otherwise the event values structure as the call leaves it, and the
  error (return value -1) or the sizes of the tokens read (return value 1).
\<close>

definition libevtx_event_values_read ::
  "binary_xml_token_functions \<Rightarrow> event_values option \<Rightarrow> bool \<Rightarrow> uint8_t list option
     \<Rightarrow> size_t \<Rightarrow> size_t \<Rightarrow> (event_values option \<times> (error + size_t list)) option" where
  "libevtx_event_values_read token event_values io_handle chunk_data
       chunk_data_size chunk_data_offset =
     (case libevtx_event_values_read_header event_values io_handle chunk_data
             chunk_data_size chunk_data_offset of
        (ev, Inl e) \<Rightarrow> Some (ev, Inl e)
      | (ev, Inr (payload_offset, payload_length)) \<Rightarrow>
          (case chunk_data of
             None \<Rightarrow> Some (ev, Inl Invalid_Chunk_Data)
           | Some data \<Rightarrow>
               map_option (Pair ev)
                 (walk_tokens token data chunk_data_size payload_offset [])))"

text \<open>
  The same call on the two objects of the caller it is given pointers to: the
  chunk buffer and the event values structure, taken to be distinct. The source
  stores through \<^verbatim>\<open>event_values\<close> only (lines 259 to 269); \<^verbatim>\<open>chunk_data\<close>
  points to \<^verbatim>\<open>const\<close> bytes, which the call reads and hands to the token
  reader. The result has the objects as the call leaves them. Token instances
  are not among these objects.
\<close>

record caller_objects =
  chunk_data_object :: "uint8_t list option"
  event_values_object :: "event_values option"

definition libevtx_event_values_read_objects ::
  "binary_xml_token_functions \<Rightarrow> caller_objects \<Rightarrow> bool \<Rightarrow> size_t \<Rightarrow> size_t
     \<Rightarrow> (caller_objects \<times> (error + size_t list)) option" where
  "libevtx_event_values_read_objects token objects io_handle chunk_data_size
       chunk_data_offset =
     map_option (\<lambda>(ev, r). (objects\<lparr>event_values_object := ev\<rparr>, r))
       (libevtx_event_values_read token (event_values_object objects) io_handle
          (chunk_data_object objects) chunk_data_size chunk_data_offset)"

subsection \<open>Concrete calls\<close>

text \<open>The structure as \<^verbatim>\<open>libevtx_event_values_initialize\<close> leaves it: all zero.\<close>

definition event_values_zero :: event_values where
  "event_values_zero = \<lparr>size_ev = 0, identifier = 0, creation_time = 0\<rparr>"

text \<open>Token functions: every token created and freed; every read gives the same size.\<close>

definition tokens_of_size :: "size_t \<Rightarrow> binary_xml_token_functions" where
  "tokens_of_size n =
     \<lparr>libevtx_binary_xml_token_initialize = (\<lambda>i. True),
      libevtx_binary_xml_token_read = (\<lambda>chunk_data chunk_data_size chunk_data_offset. Some n),
      libevtx_binary_xml_token_free = (\<lambda>i. True)\<rparr>"

text \<open>Token functions: every read fails.\<close>

definition token_read_fails :: binary_xml_token_functions where
  "token_read_fails =
     \<lparr>libevtx_binary_xml_token_initialize = (\<lambda>i. True),
      libevtx_binary_xml_token_read = (\<lambda>chunk_data chunk_data_size chunk_data_offset. None),
      libevtx_binary_xml_token_free = (\<lambda>i. True)\<rparr>"

text \<open>
  A chunk of 32 bytes: the 24-byte header with size \<open>0x1C\<close>, identifier 1 and
  creation time 2, no payload, the copy of the size, and 4 bytes that follow
  the record.
\<close>

definition record_empty_payload :: "uint8_t list" where
  "record_empty_payload =
     [0x2A, 0x2A, 0x00, 0x00,  0x1C, 0, 0, 0,
      1, 0, 0, 0, 0, 0, 0, 0,
      2, 0, 0, 0, 0, 0, 0, 0,
      0x1C, 0, 0, 0,
      0, 0, 0, 0]"

text \<open>The same record alone in a chunk of 28 bytes.\<close>

definition record_alone :: "uint8_t list" where
  "record_alone =
     [0x2A, 0x2A, 0x00, 0x00,  0x1C, 0, 0, 0,
      1, 0, 0, 0, 0, 0, 0, 0,
      2, 0, 0, 0, 0, 0, 0, 0,
      0x1C, 0, 0, 0]"

text \<open>
  A chunk of 40 bytes: a record of size \<open>0x20\<close> with a payload of 4 bytes,
  followed by 8 bytes.
\<close>

definition record_payload_4 :: "uint8_t list" where
  "record_payload_4 =
     [0x2A, 0x2A, 0x00, 0x00,  0x20, 0, 0, 0,
      1, 0, 0, 0, 0, 0, 0, 0,
      2, 0, 0, 0, 0, 0, 0, 0,
      0x0F, 0x01, 0x01, 0x00,
      0x20, 0, 0, 0,
      0, 0, 0, 0, 0, 0, 0, 0]"

text \<open>A chunk of 28 bytes whose header declares the size 0.\<close>

definition record_size_0 :: "uint8_t list" where
  "record_size_0 =
     [0x2A, 0x2A, 0x00, 0x00,  0, 0, 0, 0,
      1, 0, 0, 0, 0, 0, 0, 0,
      2, 0, 0, 0, 0, 0, 0, 0,
      0, 0, 0, 0]"

text \<open>A chunk of 30 bytes whose header declares the size 40.\<close>

definition record_size_40 :: "uint8_t list" where
  "record_size_40 =
     [0x2A, 0x2A, 0x00, 0x00,  0x28, 0, 0, 0,
      1, 0, 0, 0, 0, 0, 0, 0,
      2, 0, 0, 0, 0, 0, 0, 0,
      0, 0, 0, 0, 0, 0]"

text \<open>A chunk of 32 bytes whose header declares the size 30.\<close>

definition record_size_30 :: "uint8_t list" where
  "record_size_30 =
     [0x2A, 0x2A, 0x00, 0x00,  0x1E, 0, 0, 0,
      1, 0, 0, 0, 0, 0, 0, 0,
      2, 0, 0, 0, 0, 0, 0, 0,
      0, 0, 0x1E, 0, 0, 0, 0, 0]"

text \<open>
  A chunk of 32 bytes whose header declares the size 24, the size of the header
  alone.
\<close>

definition record_size_24 :: "uint8_t list" where
  "record_size_24 =
     [0x2A, 0x2A, 0x00, 0x00,  0x18, 0, 0, 0,
      1, 0, 0, 0, 0, 0, 0, 0,
      2, 0, 0, 0, 0, 0, 0, 0,
      0, 0, 0, 0, 0, 0, 0, 0]"

text \<open>
  A chunk of 32 bytes with the size, identifier and creation time of
  \<open>record_empty_payload\<close> but no signature.
\<close>

definition record_no_signature :: "uint8_t list" where
  "record_no_signature =
     [0x00, 0x00, 0x00, 0x00,  0x1C, 0, 0, 0,
      1, 0, 0, 0, 0, 0, 0, 0,
      2, 0, 0, 0, 0, 0, 0, 0,
      0x1C, 0, 0, 0,
      0, 0, 0, 0]"

text \<open>
  Token functions whose sizes are all at least 1: the token at offset 24 has the
  size \<open>2 ^ 64 - 1\<close>, every other token the size 1.
\<close>

definition tokens_wrapping :: binary_xml_token_functions where
  "tokens_wrapping =
     \<lparr>libevtx_binary_xml_token_initialize = (\<lambda>i. True),
      libevtx_binary_xml_token_read =
        (\<lambda>chunk_data chunk_data_size chunk_data_offset.
           if chunk_data_offset = 24 then Some (- 1) else Some 1),
      libevtx_binary_xml_token_free = (\<lambda>i. True)\<rparr>"

section \<open>Properties\<close>

subsection \<open>The header part\<close>

lemmas header_defs = libevtx_event_values_read_header_def Let_def
  byte_stream_copy_to_uint32_little_endian_def byte_stream_copy_to_uint64_little_endian_def
  signature_offset_def size_offset_def identifier_offset_def creation_time_offset_def
  sizeof_evtx_event_record_header_def

text \<open>What an accepted header says about the call.\<close>

lemma header_accepted:
  assumes "libevtx_event_values_read_header event_values io_handle chunk_data
             chunk_data_size chunk_data_offset = (ev', Inr (po, pl))"
  shows "\<exists>ev data v1 v2 v3.
           event_values = Some ev \<and> io_handle \<and> chunk_data = Some data
         \<and> chunk_data_size \<le> SSIZE_MAX \<and> chunk_data_offset < chunk_data_size
         \<and> 28 \<le> chunk_data_size - chunk_data_offset
         \<and> read_bytes data (unat chunk_data_offset) 4 = Some evtx_event_record_signature
         \<and> byte_stream_copy_to_uint32_little_endian data (unat chunk_data_offset + 4) = Some v1
         \<and> byte_stream_copy_to_uint64_little_endian data (unat chunk_data_offset + 8) = Some v2
         \<and> byte_stream_copy_to_uint64_little_endian data (unat chunk_data_offset + 16) = Some v3
         \<and> ev' = Some (ev\<lparr>size_ev := v1, identifier := v2, creation_time := v3\<rparr>)
         \<and> 24 \<le> (ucast v1 :: size_t) \<and> ucast v1 \<le> chunk_data_size - chunk_data_offset - 4
         \<and> po = chunk_data_offset + 24 \<and> pl = ucast v1 - 28"
  using assms unfolding header_defs
  by (auto split: option.splits if_splits simp: not_less)

text \<open>What a rejected header says about the call.\<close>

lemma header_rejected:
  assumes "libevtx_event_values_read_header event_values io_handle chunk_data
             chunk_data_size chunk_data_offset = (ev', Inl e)"
  shows "(e \<in> {Invalid_Event_Values, Invalid_IO_Handle, Invalid_Chunk_Data,
               Data_Size_Exceeds_Maximum, Offset_Out_Of_Bounds, Data_Size_Too_Small,
               Unsupported_Signature} \<and> ev' = event_values)
       \<or> e = Read_Outside_Buffer
       \<or> (e = Size_Out_Of_Bounds \<and>
          (\<exists>ev data v1 v2 v3.
             event_values = Some ev \<and> chunk_data = Some data
           \<and> byte_stream_copy_to_uint32_little_endian data (unat chunk_data_offset + 4) = Some v1
           \<and> byte_stream_copy_to_uint64_little_endian data (unat chunk_data_offset + 8) = Some v2
           \<and> byte_stream_copy_to_uint64_little_endian data (unat chunk_data_offset + 16) = Some v3
           \<and> ev' = Some (ev\<lparr>size_ev := v1, identifier := v2, creation_time := v3\<rparr>)))"
  using assms unfolding header_defs
  by (auto split: option.splits if_splits)

text \<open>
  In a buffer as long as \<^verbatim>\<open>chunk_data_size\<close> says, the reads of the header are
  inside once the offset and the minimum size have been checked.
\<close>

lemma read_in_header:
  assumes "chunk_data_offset < (chunk_data_size :: size_t)"
    and "28 \<le> chunk_data_size - chunk_data_offset"
    and "length data = unat chunk_data_size"
    and "k + n \<le> 28"
  shows "read_bytes data (unat chunk_data_offset + k) n
           = Some (take n (drop (unat chunk_data_offset + k) data))"
proof -
  from assms(1) have "chunk_data_offset \<le> chunk_data_size" by simp
  then have "unat (chunk_data_size - chunk_data_offset)
               = unat chunk_data_size - unat chunk_data_offset"
    by (rule unat_sub)
  moreover from assms(2) have "unat (28 :: size_t) \<le> unat (chunk_data_size - chunk_data_offset)"
    by (rule word_le_nat_alt [THEN iffD1])
  ultimately have "28 \<le> unat chunk_data_size - unat chunk_data_offset" by simp
  with assms(3,4) show ?thesis by (simp add: read_bytes_def)
qed

lemma unat_ucast_size: "unat (ucast (v :: uint32_t) :: size_t) = unat v"
proof -
  have "unat v < 2 ^ 32" using unsigned_less [of v] by simp
  then have "unat v < 2 ^ 64" by simp
  then show ?thesis by (simp add: unsigned_ucast_eq take_bit_nat_eq_self)
qed

text \<open>
  For an accepted size, the offset after the header and the end of the payload
  both lie below the chunk size.
\<close>

lemma payload_end_below_chunk_size:
  fixes off cds s :: size_t
  assumes lt: "off < cds" and mx: "cds \<le> SSIZE_MAX" and rem: "28 \<le> cds - off"
    and lo: "24 \<le> s" and hi: "s \<le> cds - off - 4"
  shows "off + 24 < cds" and "off + 24 + (s - 28) < cds"
proof -
  from lt have a: "unat off < unat cds" by (rule word_less_nat_alt [THEN iffD1])
  from mx have "unat cds \<le> unat SSIZE_MAX" by (rule word_le_nat_alt [THEN iffD1])
  then have n: "unat cds < 2 ^ 63" by (simp add: SSIZE_MAX_def)
  from lt have "off \<le> cds" by simp
  then have d: "unat (cds - off) = unat cds - unat off" by (rule unat_sub)
  from rem have "unat (28 :: size_t) \<le> unat (cds - off)" by (rule word_le_nat_alt [THEN iffD1])
  with d have r: "28 \<le> unat cds - unat off" by simp
  have "(4 :: size_t) \<le> 28" by simp
  from this rem have "(4 :: size_t) \<le> cds - off" by (rule order_trans)
  then have "unat (cds - off - 4) = unat (cds - off) - unat (4 :: size_t)" by (rule unat_sub)
  with d have d4: "unat (cds - off - 4) = unat cds - unat off - 4" by simp
  from hi have "unat s \<le> unat (cds - off - 4)" by (rule word_le_nat_alt [THEN iffD1])
  with d4 have h: "unat s \<le> unat cds - unat off - 4" by simp
  from lo have "unat (24 :: size_t) \<le> unat s" by (rule word_le_nat_alt [THEN iffD1])
  then have l: "24 \<le> unat s" by simp
  have "(4 :: size_t) \<le> 24" by simp
  from this lo have "(4 :: size_t) \<le> s" by (rule order_trans)
  then have "unat (s - 4) = unat s - unat (4 :: size_t)" by (rule unat_sub)
  then have s4: "unat (s - 4) = unat s - 4" by simp
  from a n have "unat off + unat (24 :: size_t) < 2 ^ LENGTH(64)" by simp
  then have "unat (off + 24) = unat off + unat (24 :: size_t)"
    by (rule unat_add_lem [THEN iffD1])
  with a r have "unat (off + 24) < unat cds" by simp
  then show "off + 24 < cds" by (rule word_less_nat_alt [THEN iffD2])
  from a n h l s4 have "unat off + unat (s - 4) < 2 ^ LENGTH(64)" by simp
  then have "unat (off + (s - 4)) = unat off + unat (s - 4)"
    by (rule unat_add_lem [THEN iffD1])
  with s4 a r h l have "unat (off + (s - 4)) < unat cds" by simp
  then have "off + (s - 4) < cds" by (rule word_less_nat_alt [THEN iffD2])
  moreover have "off + 24 + (s - 28) = off + (s - 4)" by simp
  ultimately show "off + 24 + (s - 28) < cds" by (simp only:)
qed

subsection \<open>Little-endian values\<close>

lemma little_endian_value_bound: "little_endian_value bs < 256 ^ length bs"
proof (induction bs)
  case Nil
  then show ?case by simp
next
  case (Cons b bs)
  have "unat b < 256" using unsigned_less [of b] by simp
  with Cons show ?case by simp
qed

lemma or_byte_nat:
  assumes "u < 256"
  shows "push_bit 8 (v::nat) OR u = 256 * v + u"
proof -
  from assms have u: "take_bit 8 u = u" by (simp add: take_bit_nat_eq_self)
  have "\<not> bit (push_bit 8 v) n \<or> \<not> bit u n" for n
  proof (cases "n < 8")
    case True
    then show ?thesis by (simp add: bit_push_bit_iff)
  next
    case False
    have "bit (take_bit 8 u) n \<longleftrightarrow> n < 8 \<and> bit u n" by (rule bit_take_bit_iff)
    with False u show ?thesis by simp
  qed
  then have "push_bit 8 v + u = push_bit 8 v OR u" by (rule disjunctive_add)
  then show ?thesis by (simp add: push_bit_eq_mult)
qed

text \<open>
  The shift-and-or of the macros computes the little-endian value, when the
  bytes fit the width of the result.
\<close>

lemma unat_byte_stream_copy:
  "8 * length bs \<le> LENGTH('a) \<Longrightarrow>
   unat (byte_stream_copy_little_endian bs :: 'a::len word) = little_endian_value bs"
proof (induction bs)
  case Nil
  then show ?case by simp
next
  case (Cons b bs)
  let ?w = "byte_stream_copy_little_endian bs :: 'a word"
  let ?v = "little_endian_value bs"
  from Cons have ih: "unat ?w = ?v" by simp
  have ub: "unat b < 256" using unsigned_less [of b] by simp
  have "?v < 256 ^ length bs" by (rule little_endian_value_bound)
  with ub have "256 * ?v + unat b < 256 * 256 ^ length bs" by simp
  also have "\<dots> = 2 ^ (8 * length (b # bs))"
  proof -
    have "(256::nat) = 2 ^ 8" by simp
    then have "(256::nat) ^ length bs = 2 ^ (8 * length bs)"
      by (simp only: power_mult)
    then show ?thesis by (simp add: power_add)
  qed
  also from Cons.prems have "\<dots> \<le> 2 ^ LENGTH('a)"
    by (intro power_increasing) simp_all
  finally have small: "256 * ?v + unat b < 2 ^ LENGTH('a)" .
  from ub small have ubL: "unat b < 2 ^ LENGTH('a)" by simp
  have "unat (push_bit 8 ?w OR (ucast b :: 'a word))
      = unat (push_bit 8 ?w) OR unat (ucast b :: 'a word)"
    by (rule unsigned_or_eq)
  also have "unat (ucast b :: 'a word) = unat b"
    using ubL by (simp add: unsigned_ucast_eq take_bit_nat_eq_self)
  also have "unat (push_bit 8 ?w) = take_bit LENGTH('a) (push_bit 8 ?v)"
    by (simp add: unsigned_push_bit_eq ih)
  finally have "unat (push_bit 8 ?w OR (ucast b :: 'a word))
      = take_bit LENGTH('a) (push_bit 8 ?v) OR unat b" .
  also have "\<dots> = take_bit LENGTH('a) (push_bit 8 ?v) OR take_bit LENGTH('a) (unat b)"
    using ubL by (simp add: take_bit_nat_eq_self)
  also have "\<dots> = take_bit LENGTH('a) (push_bit 8 ?v OR unat b)"
    by (simp add: take_bit_or)
  also have "\<dots> = take_bit LENGTH('a) (256 * ?v + unat b)"
    using ub by (simp add: or_byte_nat)
  also have "\<dots> = 256 * ?v + unat b"
    using small by (simp add: take_bit_nat_eq_self)
  finally show ?case by simp
qed

lemma copy_uint32_value:
  assumes "byte_stream_copy_to_uint32_little_endian data off = Some v"
  shows "off + 4 \<le> length data \<and> unat v = little_endian_value (take 4 (drop off data))"
proof -
  from assms have le: "off + 4 \<le> length data"
    and v: "v = byte_stream_copy_little_endian (take 4 (drop off data))"
    by (auto simp: byte_stream_copy_to_uint32_little_endian_def read_bytes_def
          split: if_splits)
  from le have "8 * length (take 4 (drop off data)) \<le> LENGTH(32)" by simp
  then have "unat (byte_stream_copy_little_endian (take 4 (drop off data)) :: uint32_t)
               = little_endian_value (take 4 (drop off data))"
    by (rule unat_byte_stream_copy)
  with le v show ?thesis by simp
qed

lemma copy_uint64_value:
  assumes "byte_stream_copy_to_uint64_little_endian data off = Some v"
  shows "off + 8 \<le> length data \<and> unat v = little_endian_value (take 8 (drop off data))"
proof -
  from assms have le: "off + 8 \<le> length data"
    and v: "v = byte_stream_copy_little_endian (take 8 (drop off data))"
    by (auto simp: byte_stream_copy_to_uint64_little_endian_def read_bytes_def
          split: if_splits)
  from le have "8 * length (take 8 (drop off data)) \<le> LENGTH(64)" by simp
  then have "unat (byte_stream_copy_little_endian (take 8 (drop off data)) :: uint64_t)
               = little_endian_value (take 8 (drop off data))"
    by (rule unat_byte_stream_copy)
  with le v show ?thesis by simp
qed

subsection \<open>The token loop\<close>

text \<open>One unfolding of the loop, for each way it goes on.\<close>

lemma walk_done:
  "\<not> c < cds \<Longrightarrow> walk_tokens token cd cds c acc = Some (Inr acc)"
  by (subst walk_tokens.simps) simp

lemma walk_read_failed:
  "c < cds \<Longrightarrow> libevtx_binary_xml_token_initialize token (length acc) \<Longrightarrow>
   libevtx_binary_xml_token_read token cd cds c = None \<Longrightarrow>
   walk_tokens token cd cds c acc = Some (Inl Token_Read_Failed)"
  by (subst walk_tokens.simps) simp

lemma walk_step:
  "c < cds \<Longrightarrow>
   walk_tokens (tokens_of_size n) cd cds c acc
     = walk_tokens (tokens_of_size n) cd cds (c + n) (acc @ [n])"
  by (subst walk_tokens.simps) (simp add: tokens_of_size_def)

text \<open>The loop returns the sizes of the tokens or one of its three errors.\<close>

lemma walk_result:
  assumes r: "walk_tokens token cd cds c acc = Some r"
  shows "r \<in> {Inl Token_Initialize_Failed, Inl Token_Read_Failed, Inl Token_Free_Failed}
         \<union> range Inr"
  by (rule walk_tokens.raw_induct [where P = "\<lambda>token cd cds c acc r.
        r \<in> {Inl Token_Initialize_Failed, Inl Token_Read_Failed, Inl Token_Free_Failed}
         \<union> range Inr", OF _ r])
     (auto split: if_splits option.splits)

text \<open>
  When tokens can always be created and freed and the offsets of a set \<open>I\<close>
  lie below the chunk size and lead to offsets of \<open>I\<close> again, the loop started
  in \<open>I\<close> never returns.
\<close>

lemma walk_cycle_no_result:
  assumes r: "walk_tokens token cd cds c acc = Some r"
  shows "(\<forall>n. libevtx_binary_xml_token_initialize token n) \<longrightarrow>
   (\<forall>n. libevtx_binary_xml_token_free token n) \<longrightarrow>
   (\<forall>c. I c \<longrightarrow> c < cds \<and>
      (\<exists>sz. libevtx_binary_xml_token_read token cd cds c = Some sz \<and> I (c + sz))) \<longrightarrow>
   I c \<longrightarrow> False"
proof (rule walk_tokens.raw_induct [where P = "\<lambda>token cd cds c acc r.
        (\<forall>n. libevtx_binary_xml_token_initialize token n) \<longrightarrow>
        (\<forall>n. libevtx_binary_xml_token_free token n) \<longrightarrow>
        (\<forall>c. I c \<longrightarrow> c < cds \<and>
           (\<exists>sz. libevtx_binary_xml_token_read token cd cds c = Some sz \<and> I (c + sz))) \<longrightarrow>
        I c \<longrightarrow> False", OF _ r])
  fix walk token cd cds c acc r
  assume ih: "\<And>token cd cds c acc r. walk token cd cds c acc = Some r \<Longrightarrow>
        (\<forall>n. libevtx_binary_xml_token_initialize token n) \<longrightarrow>
        (\<forall>n. libevtx_binary_xml_token_free token n) \<longrightarrow>
        (\<forall>c. I c \<longrightarrow> c < cds \<and>
           (\<exists>sz. libevtx_binary_xml_token_read token cd cds c = Some sz \<and> I (c + sz))) \<longrightarrow>
        I c \<longrightarrow> False"
    and body: "(if c < cds then
        if \<not> libevtx_binary_xml_token_initialize token (length acc)
        then Some (Inl Token_Initialize_Failed)
        else
          (case libevtx_binary_xml_token_read token cd cds c of
             None \<Rightarrow> Some (Inl Token_Read_Failed)
           | Some token_size \<Rightarrow>
               if \<not> libevtx_binary_xml_token_free token (length acc)
               then Some (Inl Token_Free_Failed)
               else walk token cd cds (c + token_size) (acc @ [token_size]))
      else Some (Inr acc)) = Some r"
  show "(\<forall>n. libevtx_binary_xml_token_initialize token n) \<longrightarrow>
        (\<forall>n. libevtx_binary_xml_token_free token n) \<longrightarrow>
        (\<forall>c. I c \<longrightarrow> c < cds \<and>
           (\<exists>sz. libevtx_binary_xml_token_read token cd cds c = Some sz \<and> I (c + sz))) \<longrightarrow>
        I c \<longrightarrow> False"
  proof (intro impI)
    assume init: "\<forall>n. libevtx_binary_xml_token_initialize token n"
      and free: "\<forall>n. libevtx_binary_xml_token_free token n"
      and inv: "\<forall>c. I c \<longrightarrow> c < cds \<and>
           (\<exists>sz. libevtx_binary_xml_token_read token cd cds c = Some sz \<and> I (c + sz))"
      and c: "I c"
    from inv c obtain sz where lt: "c < cds"
      and rd: "libevtx_binary_xml_token_read token cd cds c = Some sz"
      and c': "I (c + sz)" by blast
    from body lt init free rd have "walk token cd cds (c + sz) (acc @ [sz]) = Some r"
      by simp
    from ih [OF this] init free inv c' show False by blast
  qed
qed

lemma walk_cycle_diverges:
  assumes "\<forall>n. libevtx_binary_xml_token_initialize token n"
    and "\<forall>n. libevtx_binary_xml_token_free token n"
    and "\<forall>c. I c \<longrightarrow> c < cds \<and>
      (\<exists>sz. libevtx_binary_xml_token_read token cd cds c = Some sz \<and> I (c + sz))"
    and "I c"
  shows "walk_tokens token cd cds c acc = None"
  using walk_cycle_no_result [of token cd cds c acc _ I] assms
  by (cases "walk_tokens token cd cds c acc") auto

text \<open>
  When every token read below the end of the chunk has a size of at least 1
  and the offset does not wrap around, the loop returns, after at most as many
  iterations as there are bytes between the offset and the end of the chunk.
\<close>

lemma walk_terminates:
  assumes "\<forall>c sz. c < cds \<longrightarrow> libevtx_binary_xml_token_read token cd cds c = Some sz
             \<longrightarrow> sz \<noteq> 0 \<and> unat c + unat sz < 2 ^ 64"
  shows "\<exists>r. walk_tokens token cd cds c acc = Some r
           \<and> (\<forall>toks. r = Inr toks \<longrightarrow> length toks \<le> length acc + (unat cds - unat c))"
proof (induction "unat cds - unat c" arbitrary: c acc rule: less_induct)
  case less
  show ?case
  proof (cases "c < cds")
    case False
    then show ?thesis by (subst walk_tokens.simps) simp
  next
    case lt: True
    show ?thesis
    proof (cases "libevtx_binary_xml_token_initialize token (length acc)")
      case False
      with lt show ?thesis by (subst walk_tokens.simps) simp
    next
      case init: True
      show ?thesis
      proof (cases "libevtx_binary_xml_token_read token cd cds c")
        case None
        with lt init show ?thesis by (subst walk_tokens.simps) simp
      next
        case (Some sz)
        show ?thesis
        proof (cases "libevtx_binary_xml_token_free token (length acc)")
          case False
          with lt init Some show ?thesis by (subst walk_tokens.simps) simp
        next
          case free: True
          from assms lt Some have nz: "sz \<noteq> 0" and nw: "unat c + unat sz < 2 ^ 64"
            by blast+
          from nw have "unat c + unat sz < 2 ^ LENGTH(64)" by simp
          then have u: "unat (c + sz) = unat c + unat sz"
            by (rule unat_add_lem [THEN iffD1])
          from nz have pos: "0 < unat sz" by (simp add: unat_gt_0)
          from lt have ltn: "unat c < unat cds" by (simp add: word_less_nat_alt)
          have dec: "unat cds - unat (c + sz) < unat cds - unat c"
            using u pos ltn by arith
          from less [OF dec, of "acc @ [sz]"] obtain r where
            r: "walk_tokens token cd cds (c + sz) (acc @ [sz]) = Some r"
            and b: "\<forall>toks. r = Inr toks \<longrightarrow>
                     length toks \<le> length (acc @ [sz]) + (unat cds - unat (c + sz))"
            by blast
          have "walk_tokens token cd cds c acc = Some r"
            using lt init Some free r by (subst walk_tokens.simps) simp
          moreover have "\<forall>toks. r = Inr toks \<longrightarrow>
               length toks \<le> length acc + (unat cds - unat c)"
            using b u pos ltn by (auto; fastforce)
          ultimately show ?thesis by blast
        qed
      qed
    qed
  qed
qed

text \<open>
  A loop that returns with success has added tokens to those it started with,
  and their sizes have taken the offset to the chunk size or beyond.
\<close>

lemma walk_success_cursor:
  assumes r: "walk_tokens token cd cds c acc = Some r"
  shows "\<forall>toks. r = Inr toks \<longrightarrow> (\<exists>new. toks = acc @ new \<and> cds \<le> c + sum_list new)"
proof (rule walk_tokens.raw_induct [where P = "\<lambda>token cd cds c acc r.
        \<forall>toks. r = Inr toks \<longrightarrow> (\<exists>new. toks = acc @ new \<and> cds \<le> c + sum_list new)",
        OF _ r])
  fix walk token cd cds c acc r
  assume ih: "\<And>token cd cds c acc r. walk token cd cds c acc = Some r \<Longrightarrow>
        \<forall>toks. r = Inr toks \<longrightarrow> (\<exists>new. toks = acc @ new \<and> cds \<le> c + sum_list new)"
    and body: "(if c < cds then
        if \<not> libevtx_binary_xml_token_initialize token (length acc)
        then Some (Inl Token_Initialize_Failed)
        else
          (case libevtx_binary_xml_token_read token cd cds c of
             None \<Rightarrow> Some (Inl Token_Read_Failed)
           | Some token_size \<Rightarrow>
               if \<not> libevtx_binary_xml_token_free token (length acc)
               then Some (Inl Token_Free_Failed)
               else walk token cd cds (c + token_size) (acc @ [token_size]))
      else Some (Inr acc)) = Some r"
  show "\<forall>toks. r = Inr toks \<longrightarrow> (\<exists>new. toks = acc @ new \<and> cds \<le> c + sum_list new)"
  proof (intro allI impI)
    fix toks assume t: "r = Inr toks"
    show "\<exists>new. toks = acc @ new \<and> cds \<le> c + sum_list new"
    proof (cases "c < cds")
      case False
      with body t have "toks = acc" by simp
      with False show ?thesis by (intro exI [of _ "[]"]) (simp add: not_less)
    next
      case True
      with body t obtain sz where
        "walk token cd cds (c + sz) (acc @ [sz]) = Some (Inr toks)"
        by (auto split: if_splits option.splits)
      from ih [OF this] obtain new where
        n1: "toks = (acc @ [sz]) @ new" and n2: "cds \<le> c + sz + sum_list new" by blast
      have "c + sz + sum_list new = c + sum_list (sz # new)"
        by (simp only: sum_list.Cons add.assoc)
      with n2 have "cds \<le> c + sum_list (sz # new)" by (simp only:)
      moreover from n1 have "toks = acc @ (sz # new)" by simp
      ultimately show ?thesis by blast
    qed
  qed
qed

subsection \<open>The whole call\<close>

text \<open>A call that returns with success has passed the header part.\<close>

lemma read_succeeds_header:
  assumes "libevtx_event_values_read token event_values io_handle chunk_data
             chunk_data_size chunk_data_offset = Some (ev', Inr tokens)"
  shows "\<exists>po pl. libevtx_event_values_read_header event_values io_handle chunk_data
             chunk_data_size chunk_data_offset = (ev', Inr (po, pl))"
  using assms unfolding libevtx_event_values_read_def
  by (auto split: prod.splits sum.splits option.splits)

text \<open>
  For every accepted record the loop starts below the chunk size, so that its
  body runs at least once; and a successful call has read tokens up to the end
  of the chunk or beyond: the sizes of its tokens never add up to the payload
  length.
\<close>

lemma successful_walk_overruns_payload:
  assumes h: "libevtx_event_values_read_header event_values io_handle chunk_data
             chunk_data_size chunk_data_offset = (ev', Inr (po, pl))"
    and rd: "libevtx_event_values_read token event_values io_handle chunk_data
             chunk_data_size chunk_data_offset = Some (ev'', Inr tokens)"
  shows "po < chunk_data_size" and "po + pl < chunk_data_size"
    and "chunk_data_size \<le> po + sum_list tokens" and "sum_list tokens \<noteq> pl"
proof -
  from header_accepted [OF h] obtain data and v1 :: uint32_t where
    cd: "chunk_data = Some data"
    and b: "chunk_data_size \<le> SSIZE_MAX" "chunk_data_offset < chunk_data_size"
      "28 \<le> chunk_data_size - chunk_data_offset"
      "24 \<le> (ucast v1 :: size_t)" "ucast v1 \<le> chunk_data_size - chunk_data_offset - 4"
    and po: "po = chunk_data_offset + 24" and pl: "pl = ucast v1 - 28"
    by blast
  from payload_end_below_chunk_size [OF b(2) b(1) b(3) b(4) b(5)] po pl
  show 1: "po < chunk_data_size" and 2: "po + pl < chunk_data_size" by simp_all
  from rd h cd have "walk_tokens token data chunk_data_size po [] = Some (Inr tokens)"
    by (auto simp: libevtx_event_values_read_def)
  from walk_success_cursor [OF this] show 3: "chunk_data_size \<le> po + sum_list tokens"
    by simp
  show "sum_list tokens \<noteq> pl"
  proof
    assume "sum_list tokens = pl"
    with 3 have "chunk_data_size \<le> po + pl" by (simp only:)
    then have "\<not> po + pl < chunk_data_size" by (rule leD)
    with 2 show False by contradiction
  qed
qed

text \<open>
  When every token read below the chunk size has a size of at least 1 and the
  offset plus the size does not wrap around, the loop returns from every
  offset, and so does the whole call.
\<close>

lemma walk_returns:
  assumes "\<forall>c sz. c < chunk_data_size \<longrightarrow>
             libevtx_binary_xml_token_read token data chunk_data_size c = Some sz \<longrightarrow>
             1 \<le> sz \<and> unat c + unat sz < 2 ^ 64"
  shows "(\<exists>r. walk_tokens token data chunk_data_size cursor tokens = Some r)
       \<and> (\<exists>r. libevtx_event_values_read token event_values io_handle (Some data)
                 chunk_data_size chunk_data_offset = Some r)"
proof -
  have nz: "sz \<noteq> 0" if "1 \<le> sz" for sz :: size_t
    using that by auto
  from assms nz have p: "\<forall>c sz. c < chunk_data_size \<longrightarrow>
             libevtx_binary_xml_token_read token data chunk_data_size c = Some sz \<longrightarrow>
             sz \<noteq> 0 \<and> unat c + unat sz < 2 ^ 64" by blast
  have w: "\<exists>r. walk_tokens token data chunk_data_size c acc = Some r" for c acc
    using walk_terminates [OF p, of c acc] by blast
  have "\<exists>r. libevtx_event_values_read token event_values io_handle (Some data)
                 chunk_data_size chunk_data_offset = Some r"
  proof (cases "libevtx_event_values_read_header event_values io_handle (Some data)
                chunk_data_size chunk_data_offset")
    case (Pair ev1 h)
    show ?thesis
    proof (cases h)
      case (Inl e)
      with Pair show ?thesis by (simp add: libevtx_event_values_read_def)
    next
      case (Inr p)
      obtain po pl where "p = (po, pl)" by (cases p)
      moreover from w obtain r where
        "walk_tokens token data chunk_data_size po [] = Some r" by blast
      ultimately show ?thesis using Pair Inr
        by (simp add: libevtx_event_values_read_def)
    qed
  qed
  with w show ?thesis by blast
qed

text \<open>
  The event values after a call that returns, for any buffer: unmodified after
  an early error, overwritten with the header fields after a later error other
  than a read outside the buffer and after success.
\<close>

lemma read_event_values_any_buffer:
  assumes "libevtx_event_values_read token event_values io_handle chunk_data
             chunk_data_size chunk_data_offset = Some (ev', r)"
  shows "(r \<in> Inl ` {Invalid_Event_Values, Invalid_IO_Handle, Invalid_Chunk_Data,
               Data_Size_Exceeds_Maximum, Offset_Out_Of_Bounds, Data_Size_Too_Small,
               Unsupported_Signature} \<and> ev' = event_values)
       \<or> r = Inl Read_Outside_Buffer
       \<or> ((r \<in> Inl ` {Size_Out_Of_Bounds, Token_Initialize_Failed, Token_Read_Failed,
                        Token_Free_Failed} \<or> (\<exists>tokens. r = Inr tokens)) \<and>
          (\<exists>ev data v1 v2 v3.
             event_values = Some ev \<and> chunk_data = Some data
           \<and> byte_stream_copy_to_uint32_little_endian data (unat chunk_data_offset + 4) = Some v1
           \<and> byte_stream_copy_to_uint64_little_endian data (unat chunk_data_offset + 8) = Some v2
           \<and> byte_stream_copy_to_uint64_little_endian data (unat chunk_data_offset + 16) = Some v3
           \<and> ev' = Some (ev\<lparr>size_ev := v1, identifier := v2, creation_time := v3\<rparr>)))"
proof (cases "libevtx_event_values_read_header event_values io_handle chunk_data
                chunk_data_size chunk_data_offset")
  case (Pair ev1 h)
  show ?thesis
  proof (cases h)
    case (Inl e)
    with Pair assms have "ev' = ev1" and "r = Inl e"
      by (simp_all add: libevtx_event_values_read_def)
    with header_rejected [of event_values io_handle chunk_data chunk_data_size
        chunk_data_offset ev' e] Pair Inl
    show ?thesis by blast
  next
    case (Inr p)
    obtain po pl where p: "p = (po, pl)" by (cases p)
    from Pair Inr p have h: "libevtx_event_values_read_header event_values io_handle
        chunk_data chunk_data_size chunk_data_offset = (ev1, Inr (po, pl))" by simp
    from header_accepted [OF h] obtain ev data v1 v2 v3 where
      a: "event_values = Some ev" "chunk_data = Some data"
      "byte_stream_copy_to_uint32_little_endian data (unat chunk_data_offset + 4) = Some v1"
      "byte_stream_copy_to_uint64_little_endian data (unat chunk_data_offset + 8) = Some v2"
      "byte_stream_copy_to_uint64_little_endian data (unat chunk_data_offset + 16) = Some v3"
      "ev1 = Some (ev\<lparr>size_ev := v1, identifier := v2, creation_time := v3\<rparr>)"
      by blast
    from assms h a(2) have "ev' = ev1"
      and w: "walk_tokens token data chunk_data_size po [] = Some r"
      by (auto simp: libevtx_event_values_read_def)
    from walk_result [OF w] have
      "r \<in> Inl ` {Size_Out_Of_Bounds, Token_Initialize_Failed, Token_Read_Failed,
                        Token_Free_Failed} \<or> (\<exists>tokens. r = Inr tokens)"
      by auto
    with a \<open>ev' = ev1\<close> show ?thesis by blast
  qed
qed

text \<open>
  In a buffer as long as the chunk size says, the header fields are read inside
  the buffer: a read outside can only be that of the trailing copy of the size,
  after the three fields have been stored.
\<close>

lemma header_read_outside:
  assumes h: "libevtx_event_values_read_header event_values io_handle (Some data)
             chunk_data_size chunk_data_offset = (ev', Inl Read_Outside_Buffer)"
    and len: "length data = unat chunk_data_size"
  shows "\<exists>ev v1 v2 v3.
           event_values = Some ev
         \<and> byte_stream_copy_to_uint32_little_endian data (unat chunk_data_offset + 4) = Some v1
         \<and> byte_stream_copy_to_uint64_little_endian data (unat chunk_data_offset + 8) = Some v2
         \<and> byte_stream_copy_to_uint64_little_endian data (unat chunk_data_offset + 16) = Some v3
         \<and> ev' = Some (ev\<lparr>size_ev := v1, identifier := v2, creation_time := v3\<rparr>)"
proof -
  from h obtain ev where ev: "event_values = Some ev"
    by (cases event_values) (simp_all add: header_defs)
  from h ev have lt: "chunk_data_offset < chunk_data_size"
    by (auto simp: header_defs not_le split: if_splits)
  from h ev have rem: "28 \<le> chunk_data_size - chunk_data_offset"
    by (auto simp: header_defs not_less split: if_splits)
  have r0: "read_bytes data (unat chunk_data_offset) 4
              = Some (take 4 (drop (unat chunk_data_offset) data))"
    using read_in_header [OF lt rem len, of 0 4] by simp
  have r4: "read_bytes data (unat chunk_data_offset + 4) 4
              = Some (take 4 (drop (unat chunk_data_offset + 4) data))"
    using read_in_header [OF lt rem len, of 4 4] by simp
  have r8: "read_bytes data (unat chunk_data_offset + 8) 8
              = Some (take 8 (drop (unat chunk_data_offset + 8) data))"
    using read_in_header [OF lt rem len, of 8 8] by simp
  have r16: "read_bytes data (unat chunk_data_offset + 16) 8
              = Some (take 8 (drop (unat chunk_data_offset + 16) data))"
    using read_in_header [OF lt rem len, of 16 8] by simp
  from h ev show ?thesis
    by (auto simp: header_defs r0 r4 r8 r16 split: if_splits option.splits)
qed

lemma read_outside_header:
  assumes "libevtx_event_values_read token event_values io_handle chunk_data
             chunk_data_size chunk_data_offset = Some (ev', Inl Read_Outside_Buffer)"
  shows "libevtx_event_values_read_header event_values io_handle chunk_data
             chunk_data_size chunk_data_offset = (ev', Inl Read_Outside_Buffer)"
proof (cases "libevtx_event_values_read_header event_values io_handle chunk_data
                chunk_data_size chunk_data_offset")
  case (Pair ev1 hr)
  show ?thesis
  proof (cases hr)
    case (Inl e)
    with Pair assms show ?thesis by (simp add: libevtx_event_values_read_def)
  next
    case (Inr p)
    obtain po pl where p: "p = (po, pl)" by (cases p)
    from Pair Inr p have h: "libevtx_event_values_read_header event_values io_handle
        chunk_data chunk_data_size chunk_data_offset = (ev1, Inr (po, pl))" by simp
    from header_accepted [OF h] obtain data where cd: "chunk_data = Some data" by blast
    from assms h cd have
      "walk_tokens token data chunk_data_size po [] = Some (Inl Read_Outside_Buffer)"
      by (auto simp: libevtx_event_values_read_def)
    from walk_result [OF this] show ?thesis by auto
  qed
qed

text \<open>The event values after a call that returns, for a buffer of the given size.\<close>

lemma read_event_values_cases:
  assumes "libevtx_event_values_read token event_values io_handle chunk_data
             chunk_data_size chunk_data_offset = Some (ev', r)"
    and len: "\<forall>data. chunk_data = Some data \<longrightarrow> length data = unat chunk_data_size"
  shows "(r \<in> Inl ` {Invalid_Event_Values, Invalid_IO_Handle, Invalid_Chunk_Data,
               Data_Size_Exceeds_Maximum, Offset_Out_Of_Bounds, Data_Size_Too_Small,
               Unsupported_Signature} \<and> ev' = event_values)
       \<or> ((r \<in> Inl ` {Read_Outside_Buffer, Size_Out_Of_Bounds, Token_Initialize_Failed,
                        Token_Read_Failed, Token_Free_Failed} \<or> (\<exists>tokens. r = Inr tokens)) \<and>
          (\<exists>ev data v1 v2 v3.
             event_values = Some ev \<and> chunk_data = Some data
           \<and> byte_stream_copy_to_uint32_little_endian data (unat chunk_data_offset + 4) = Some v1
           \<and> byte_stream_copy_to_uint64_little_endian data (unat chunk_data_offset + 8) = Some v2
           \<and> byte_stream_copy_to_uint64_little_endian data (unat chunk_data_offset + 16) = Some v3
           \<and> ev' = Some (ev\<lparr>size_ev := v1, identifier := v2, creation_time := v3\<rparr>)))"
proof (cases "r = Inl Read_Outside_Buffer")
  case True
  with assms(1) have h: "libevtx_event_values_read_header event_values io_handle chunk_data
             chunk_data_size chunk_data_offset = (ev', Inl Read_Outside_Buffer)"
    by (simp add: read_outside_header)
  then obtain data where cd: "chunk_data = Some data"
    by (cases chunk_data) (auto simp: header_defs split: option.splits if_splits)
  with len have "length data = unat chunk_data_size" by simp
  from header_read_outside [OF h [unfolded cd] this] cd True show ?thesis by auto
next
  case False
  with read_event_values_any_buffer [OF assms(1)] show ?thesis by auto
qed

subsection \<open>Evaluating concrete calls\<close>

lemma header_record_empty_payload:
  "libevtx_event_values_read_header (Some event_values_zero) True
     (Some record_empty_payload) 32 0
   = (Some \<lparr>size_ev = 28, identifier = 1, creation_time = 2\<rparr>, Inr (24, 0))"
  by (simp add: header_defs event_values_zero_def SSIZE_MAX_def read_bytes_def
        evtx_event_record_signature_def record_empty_payload_def)

lemma header_record_payload_4:
  "libevtx_event_values_read_header (Some event_values_zero) True
     (Some record_payload_4) 40 0
   = (Some \<lparr>size_ev = 32, identifier = 1, creation_time = 2\<rparr>, Inr (24, 4))"
  by (simp add: header_defs event_values_zero_def SSIZE_MAX_def read_bytes_def
        evtx_event_record_signature_def record_payload_4_def)

lemma header_record_alone:
  "libevtx_event_values_read_header (Some event_values_zero) True
     (Some record_alone) 28 0
   = (Some \<lparr>size_ev = 28, identifier = 1, creation_time = 2\<rparr>, Inl Size_Out_Of_Bounds)"
  by (simp add: header_defs event_values_zero_def SSIZE_MAX_def read_bytes_def
        evtx_event_record_signature_def record_alone_def)

lemma header_record_size_0:
  "libevtx_event_values_read_header (Some event_values_zero) True
     (Some record_size_0) 28 0
   = (Some \<lparr>size_ev = 0, identifier = 1, creation_time = 2\<rparr>, Inl Read_Outside_Buffer)"
  by (simp add: header_defs event_values_zero_def SSIZE_MAX_def read_bytes_def
        evtx_event_record_signature_def record_size_0_def)

lemma header_record_size_40:
  "libevtx_event_values_read_header (Some event_values_zero) True
     (Some record_size_40) 30 0
   = (Some \<lparr>size_ev = 40, identifier = 1, creation_time = 2\<rparr>, Inl Read_Outside_Buffer)"
  by (simp add: header_defs event_values_zero_def SSIZE_MAX_def read_bytes_def
        evtx_event_record_signature_def record_size_40_def)

lemma header_record_size_30:
  "libevtx_event_values_read_header (Some event_values_zero) True
     (Some record_size_30) 32 0
   = (Some \<lparr>size_ev = 30, identifier = 1, creation_time = 2\<rparr>, Inl Size_Out_Of_Bounds)"
  by (simp add: header_defs event_values_zero_def SSIZE_MAX_def read_bytes_def
        evtx_event_record_signature_def record_size_30_def)

lemma header_record_no_signature:
  "libevtx_event_values_read_header (Some event_values_zero) True
     (Some record_no_signature) 32 0
   = (Some event_values_zero, Inl Unsupported_Signature)"
  by (simp add: header_defs event_values_zero_def SSIZE_MAX_def read_bytes_def
        evtx_event_record_signature_def record_no_signature_def)

lemma read_record_payload_4:
  "libevtx_event_values_read (tokens_of_size 16) (Some event_values_zero) True
       (Some record_payload_4) 40 0
     = Some (Some \<lparr>size_ev = 32, identifier = 1, creation_time = 2\<rparr>, Inr [16])"
  by (simp add: libevtx_event_values_read_def header_record_payload_4 walk_step walk_done)

lemma read_record_size_30:
  "libevtx_event_values_read (tokens_of_size 1) (Some event_values_zero) True
       (Some record_size_30) 32 0
     = Some (Some \<lparr>size_ev = 30, identifier = 1, creation_time = 2\<rparr>, Inl Size_Out_Of_Bounds)"
  by (simp add: libevtx_event_values_read_def header_record_size_30)

lemma header_record_size_24:
  "libevtx_event_values_read_header (Some event_values_zero) True
     (Some record_size_24) 32 0
   = (Some \<lparr>size_ev = 24, identifier = 1, creation_time = 2\<rparr>,
      Inr (24, 18446744073709551612))"
  by (simp add: header_defs event_values_zero_def SSIZE_MAX_def read_bytes_def
        evtx_event_record_signature_def record_size_24_def)

lemma read_objects_record_size_30:
  "libevtx_event_values_read_objects (tokens_of_size 1)
       \<lparr>chunk_data_object = Some record_size_30,
         event_values_object = Some event_values_zero\<rparr> True 32 0
     = Some (\<lparr>chunk_data_object = Some record_size_30,
               event_values_object =
                 Some \<lparr>size_ev = 30, identifier = 1, creation_time = 2\<rparr>\<rparr>,
             Inl Size_Out_Of_Bounds)"
  by (simp add: libevtx_event_values_read_objects_def read_record_size_30)

lemma walk_returns_example:
  "(\<exists>r. walk_tokens (tokens_of_size 1) record_empty_payload 32 24 [] = Some r)
   \<and> (\<exists>r. libevtx_event_values_read (tokens_of_size 1) (Some event_values_zero) True
             (Some record_empty_payload) 32 0 = Some r)"
proof -
  have "unat c + unat (1 :: size_t) < 2 ^ 64" if "c < 32" for c :: size_t
  proof -
    from that have "unat c < unat (32 :: size_t)" by (rule word_less_nat_alt [THEN iffD1])
    then show ?thesis by simp
  qed
  then have "\<forall>c sz. c < (32 :: size_t) \<longrightarrow>
             libevtx_binary_xml_token_read (tokens_of_size 1) record_empty_payload 32 c
               = Some sz \<longrightarrow>
             1 \<le> sz \<and> unat c + unat sz < 2 ^ 64"
    by (auto simp: tokens_of_size_def)
  from walk_returns [OF this] show ?thesis by blast
qed

text \<open>
  With sizes of at least 1 that wrap the offset around (24, 23, 24, ...) the
  call does not return.
\<close>

lemma read_wrapping_never_returns:
  "libevtx_event_values_read tokens_wrapping (Some event_values_zero) True
     (Some record_empty_payload) 32 0 = None"
proof -
  have "walk_tokens tokens_wrapping record_empty_payload 32 24 [] = None"
    by (rule walk_cycle_diverges [where I = "\<lambda>c. c = 23 \<or> c = 24"])
       (auto simp: tokens_wrapping_def)
  then show ?thesis
    by (simp add: libevtx_event_values_read_def header_record_empty_payload)
qed

section \<open>The claims\<close>

text \<open>
  C1. The claim: tokens are decoded only while the cursor is below the end of
  the payload, so that for a record without payload the loop body never runs
  and the call succeeds with no token. The loop of the source runs while the
  offset is below \<^verbatim>\<open>chunk_data_size\<close>. For the record of size \<open>0x1C\<close> in a
  chunk of 32 bytes the header part gives the payload offset 24 and the payload
  length 0, and the loop body runs at offset 24: the call fails when the token
  read fails, and returns one token when the read gives 8. The record alone in
  a chunk of 28 bytes is rejected by the size check.
\<close>

theorem loop_body_runs_on_empty_payload:
  "libevtx_event_values_read_header (Some event_values_zero) True
     (Some record_empty_payload) 32 0
   = (Some \<lparr>size_ev = 28, identifier = 1, creation_time = 2\<rparr>, Inr (24, 0))
   \<and> libevtx_event_values_read token_read_fails (Some event_values_zero) True
       (Some record_empty_payload) 32 0
     = Some (Some \<lparr>size_ev = 28, identifier = 1, creation_time = 2\<rparr>, Inl Token_Read_Failed)
   \<and> libevtx_event_values_read (tokens_of_size 8) (Some event_values_zero) True
       (Some record_empty_payload) 32 0
     = Some (Some \<lparr>size_ev = 28, identifier = 1, creation_time = 2\<rparr>, Inr [8])
   \<and> libevtx_event_values_read (tokens_of_size 8) (Some event_values_zero) True
       (Some record_alone) 28 0
     = Some (Some \<lparr>size_ev = 28, identifier = 1, creation_time = 2\<rparr>, Inl Size_Out_Of_Bounds)"
  by (simp add: libevtx_event_values_read_def header_record_empty_payload
        header_record_alone walk_read_failed walk_step walk_done
        token_read_fails_def)

text \<open>
  C2. The claim: a token that would move the cursor past the end of the payload
  makes the walk fail with TokenOverrun, so that the sizes of a successful walk
  add up to the payload length. The source has no such check. For the record
  with a payload of 4 bytes (payload offset 24, payload length 4) in a chunk of
  40 bytes and a token of size 16 at offset 24, the call succeeds with that one
  token, whose size is not 4.
\<close>

theorem overrun_token_accepted:
  "libevtx_event_values_read_header (Some event_values_zero) True
     (Some record_payload_4) 40 0
   = (Some \<lparr>size_ev = 32, identifier = 1, creation_time = 2\<rparr>, Inr (24, 4))
   \<and> libevtx_event_values_read (tokens_of_size 16) (Some event_values_zero) True
       (Some record_payload_4) 40 0
     = Some (Some \<lparr>size_ev = 32, identifier = 1, creation_time = 2\<rparr>, Inr [16])
   \<and> sum_list [16 :: size_t] \<noteq> 4"
  by (simp add: libevtx_event_values_read_def header_record_payload_4
        walk_step walk_done)

text \<open>
  C3. The claim: a size of 0, below the header size or beyond the chunk is
  rejected as out of bounds without a further read, the trailing copy of the
  size being read only after the bounds check. The source reads the copy at
  \<^verbatim>\<open>event_record_data[ size - 4 ]\<close> before it checks the size. With the
  declared size 0 in a chunk of 28 bytes the index wraps to 4294967292, and with
  the declared size 40 in a chunk of 30 bytes the read is at offsets 36 to 39:
  both reads are outside the buffer.
\<close>

theorem trailing_copy_read_before_bounds_check:
  "libevtx_event_values_read token_read_fails (Some event_values_zero) True
       (Some record_size_0) 28 0
     = Some (Some \<lparr>size_ev = 0, identifier = 1, creation_time = 2\<rparr>, Inl Read_Outside_Buffer)
   \<and> libevtx_event_values_read token_read_fails (Some event_values_zero) True
       (Some record_size_40) 30 0
     = Some (Some \<lparr>size_ev = 40, identifier = 1, creation_time = 2\<rparr>, Inl Read_Outside_Buffer)"
  by (simp add: libevtx_event_values_read_def header_record_size_0 header_record_size_40)

text \<open>
  C4. The claim: a token of size 0 makes the walk fail with NoProgress, and the
  walk never spins on it. The source has no such check. On the record without
  payload in a chunk of 32 bytes, with token functions that give size 0, the
  offset stays at 24, below the chunk size 32: the call does not return.
\<close>

theorem zero_size_token_never_returns:
  "libevtx_event_values_read (tokens_of_size 0) (Some event_values_zero) True
     (Some record_empty_payload) 32 0 = None"
proof -
  have "walk_tokens (tokens_of_size 0) record_empty_payload 32 24 [] = None"
    by (rule walk_cycle_diverges [where I = "\<lambda>c. c = 24"])
       (simp_all add: tokens_of_size_def)
  then show ?thesis
    by (simp add: libevtx_event_values_read_def header_record_empty_payload)
qed

text \<open>
  C5. The claim: when every token has a size of at least 1 the loop ends, within
  as many iterations as the payload has bytes. The loop of the source runs up
  to \<^verbatim>\<open>chunk_data_size\<close>, not to the end of the payload: for the record without
  payload in a chunk of 32 bytes and tokens of size 1 it runs 8 times, more than
  the payload length 0.
\<close>

theorem iterations_exceed_payload_length:
  "libevtx_event_values_read_header (Some event_values_zero) True
     (Some record_empty_payload) 32 0
   = (Some \<lparr>size_ev = 28, identifier = 1, creation_time = 2\<rparr>, Inr (24, 0))
   \<and> libevtx_event_values_read (tokens_of_size 1) (Some event_values_zero) True
       (Some record_empty_payload) 32 0
     = Some (Some \<lparr>size_ev = 28, identifier = 1, creation_time = 2\<rparr>,
             Inr [1, 1, 1, 1, 1, 1, 1, 1])
   \<and> \<not> length [1, 1, 1, 1, 1, 1, 1, 1 :: size_t] \<le> unat (0 :: size_t)"
  by (simp add: libevtx_event_values_read_def header_record_empty_payload
        walk_step walk_done)

text \<open>
  The claim C6 as stated, that a call returning an error leaves the event
  values unmodified, fails: a record of declared size 30 in a chunk of 32
  bytes is rejected by the size check after the three header fields have been
  stored.
\<close>

theorem event_values_written_before_error:
  "libevtx_event_values_read (tokens_of_size 1) (Some event_values_zero) True
       (Some record_size_30) 32 0
     = Some (Some \<lparr>size_ev = 30, identifier = 1, creation_time = 2\<rparr>, Inl Size_Out_Of_Bounds)
   \<and> Some \<lparr>size_ev = 30, identifier = 1, creation_time = 2\<rparr> \<noteq> Some event_values_zero"
proof -
  have "\<lparr>size_ev = 30, identifier = 1, creation_time = 2\<rparr> \<noteq> event_values_zero"
    by (simp add: event_values_zero_def)
  then show ?thesis
    by (simp add: libevtx_event_values_read_def header_record_size_30)
qed

text \<open>
  C6, amended. For every call on a chunk buffer as long as the chunk size says,
  the buffer is after the call what it was before. When the call fails at an
  argument check, the offset check, the minimum size check or the signature
  check, the event values structure is unmodified. On every other outcome (the
  size check fails, a token function fails, the trailing copy of the size is
  read outside the buffer, or the call succeeds) the structure is the given
  one with size, identifier and creation time overwritten by the little-endian
  fields of the header.
\<close>

theorem event_values_frame:
  assumes "libevtx_event_values_read_objects token objects io_handle
             chunk_data_size chunk_data_offset = Some (objects', r)"
    and "\<forall>data. chunk_data_object objects = Some data \<longrightarrow>
           length data = unat chunk_data_size"
  shows "chunk_data_object objects' = chunk_data_object objects
       \<and> ((r \<in> Inl ` {Invalid_Event_Values, Invalid_IO_Handle, Invalid_Chunk_Data,
               Data_Size_Exceeds_Maximum, Offset_Out_Of_Bounds, Data_Size_Too_Small,
               Unsupported_Signature}
            \<and> event_values_object objects' = event_values_object objects)
        \<or> ((r \<in> Inl ` {Read_Outside_Buffer, Size_Out_Of_Bounds, Token_Initialize_Failed,
                        Token_Read_Failed, Token_Free_Failed} \<or> (\<exists>tokens. r = Inr tokens)) \<and>
          (\<exists>ev data v1 v2 v3.
             event_values_object objects = Some ev \<and> chunk_data_object objects = Some data
           \<and> byte_stream_copy_to_uint32_little_endian data (unat chunk_data_offset + 4) = Some v1
           \<and> byte_stream_copy_to_uint64_little_endian data (unat chunk_data_offset + 8) = Some v2
           \<and> byte_stream_copy_to_uint64_little_endian data (unat chunk_data_offset + 16) = Some v3
           \<and> event_values_object objects'
               = Some (ev\<lparr>size_ev := v1, identifier := v2, creation_time := v3\<rparr>))))"
proof -
  from assms(1) obtain ev' where
    rd: "libevtx_event_values_read token (event_values_object objects) io_handle
          (chunk_data_object objects) chunk_data_size chunk_data_offset = Some (ev', r)"
    and o: "objects' = objects\<lparr>event_values_object := ev'\<rparr>"
    by (auto simp: libevtx_event_values_read_objects_def)
  from o have "chunk_data_object objects' = chunk_data_object objects"
    and "event_values_object objects' = ev'" by simp_all
  with read_event_values_cases [OF rd assms(2)] show ?thesis by simp
qed

theorem event_values_frame_witness:
  "libevtx_event_values_read_objects (tokens_of_size 1)
       \<lparr>chunk_data_object = Some record_size_30,
         event_values_object = Some event_values_zero\<rparr> True 32 0
     = Some (\<lparr>chunk_data_object = Some record_size_30,
               event_values_object =
                 Some \<lparr>size_ev = 30, identifier = 1, creation_time = 2\<rparr>\<rparr>,
             Inl Size_Out_Of_Bounds)
   \<and> length record_size_30 = unat (32 :: size_t)
   \<and> (\<exists>ev data v1 v2 v3.
             Some event_values_zero = Some ev \<and> Some record_size_30 = Some data
           \<and> byte_stream_copy_to_uint32_little_endian data (unat (0 :: size_t) + 4) = Some v1
           \<and> byte_stream_copy_to_uint64_little_endian data (unat (0 :: size_t) + 8) = Some v2
           \<and> byte_stream_copy_to_uint64_little_endian data (unat (0 :: size_t) + 16) = Some v3
           \<and> Some \<lparr>size_ev = 30, identifier = 1, creation_time = 2\<rparr>
               = Some (ev\<lparr>size_ev := v1, identifier := v2, creation_time := v3\<rparr>))"
proof -
  have len: "length record_size_30 = unat (32 :: size_t)"
    by (simp add: record_size_30_def)
  then have "\<forall>data. chunk_data_object \<lparr>chunk_data_object = Some record_size_30,
         event_values_object = Some event_values_zero\<rparr> = Some data \<longrightarrow>
           length data = unat (32 :: size_t)" by simp
  from event_values_frame [OF read_objects_record_size_30 this]
    read_objects_record_size_30 len
  show ?thesis by (auto simp: image_iff)
qed

text \<open>
  The claim C7 as stated, that the equation holds exactly for every accepted
  record, fails: the size 24 is accepted, the payload length 24 - 28 wraps
  around to \<open>2 ^ 64 - 4\<close>, and the two sides differ by \<open>2 ^ 64\<close>.
\<close>

theorem payload_length_wraps_below_28:
  "libevtx_event_values_read_header (Some event_values_zero) True
     (Some record_size_24) 32 0
   = (Some \<lparr>size_ev = 24, identifier = 1, creation_time = 2\<rparr>,
      Inr (24, 18446744073709551612))
   \<and> unat (24 :: size_t) + unat (18446744073709551612 :: size_t) + 4
       \<noteq> unat (0 :: size_t) + unat (24 :: uint32_t)"
  by (simp add: header_record_size_24)

text \<open>
  C7, amended. For every record the header part accepts, the payload offset is
  the record start plus the header size, the payload length is the size less
  the header size and 4 in the arithmetic of \<^verbatim>\<open>size_t\<close>, and payload offset +
  payload length + 4 equals record start + size modulo \<open>2 ^ 64\<close>; when the
  size is at least 28, the header size plus 4, nothing wraps around and the
  equation holds exactly.
\<close>

theorem round_trip_bound:
  assumes "libevtx_event_values_read_header event_values io_handle chunk_data
             chunk_data_size chunk_data_offset
           = (ev', Inr (payload_offset, payload_length))"
  shows "\<exists>ev. ev' = Some ev
     \<and> payload_offset = chunk_data_offset + of_nat sizeof_evtx_event_record_header
     \<and> payload_length = ucast (size_ev ev) - of_nat (sizeof_evtx_event_record_header + 4)
     \<and> payload_offset + payload_length + 4 = chunk_data_offset + ucast (size_ev ev)
     \<and> (28 \<le> size_ev ev \<longrightarrow>
          unat payload_offset + unat payload_length + 4
            = unat chunk_data_offset + unat (size_ev ev))"
proof -
  from header_accepted [OF assms] obtain ev data v1 v2 v3 where
    ev': "ev' = Some (ev\<lparr>size_ev := v1, identifier := v2, creation_time := v3\<rparr>)"
    and mx: "chunk_data_size \<le> SSIZE_MAX" and lt: "chunk_data_offset < chunk_data_size"
    and po: "payload_offset = chunk_data_offset + 24"
    and pl: "payload_length = ucast v1 - 28"
    by blast
  let ?ev = "ev\<lparr>size_ev := v1, identifier := v2, creation_time := v3\<rparr>"
  have "unat chunk_data_offset < unat chunk_data_size"
    using lt by (simp add: word_less_nat_alt)
  moreover have "unat chunk_data_size \<le> unat SSIZE_MAX"
    using mx by (simp add: word_le_nat_alt)
  ultimately have "unat chunk_data_offset + unat (24 :: size_t) < 2 ^ LENGTH(64)"
    by (simp add: SSIZE_MAX_def)
  then have upo: "unat (chunk_data_offset + 24) = unat chunk_data_offset + unat (24 :: size_t)"
    by (rule unat_add_lem [THEN iffD1])
  have upl: "unat (ucast v1 - 28 :: size_t) = unat v1 - 28" if "28 \<le> v1"
  proof -
    from that have "unat (28 :: uint32_t) \<le> unat v1" by (rule word_le_nat_alt [THEN iffD1])
    then have "28 \<le> unat (ucast v1 :: size_t)" by (simp add: unat_ucast_size)
    then have "(28 :: size_t) \<le> ucast v1" by (simp add: word_le_nat_alt)
    then have "unat (ucast v1 - 28 :: size_t) = unat (ucast v1 :: size_t) - unat (28 :: size_t)"
      by (rule unat_sub)
    then show ?thesis by (simp add: unat_ucast_size)
  qed
  have nat_eq: "28 \<le> v1 \<longrightarrow>
         unat payload_offset + unat payload_length + 4 = unat chunk_data_offset + unat v1"
  proof
    assume a: "28 \<le> v1"
    then have "unat (28 :: uint32_t) \<le> unat v1" by (rule word_le_nat_alt [THEN iffD1])
    then have "28 \<le> unat v1" by simp
    with upo upl [OF a] po pl show
      "unat payload_offset + unat payload_length + 4 = unat chunk_data_offset + unat v1"
      by simp
  qed
  have "ev' = Some ?ev
     \<and> payload_offset = chunk_data_offset + of_nat sizeof_evtx_event_record_header
     \<and> payload_length = ucast (size_ev ?ev) - of_nat (sizeof_evtx_event_record_header + 4)
     \<and> payload_offset + payload_length + 4 = chunk_data_offset + ucast (size_ev ?ev)
     \<and> (28 \<le> size_ev ?ev \<longrightarrow>
          unat payload_offset + unat payload_length + 4
            = unat chunk_data_offset + unat (size_ev ?ev))"
    using ev' po pl nat_eq by (simp add: sizeof_evtx_event_record_header_def)
  then show ?thesis by blast
qed

theorem round_trip_bound_witness:
  "libevtx_event_values_read_header (Some event_values_zero) True
     (Some record_payload_4) 40 0
   = (Some \<lparr>size_ev = 32, identifier = 1, creation_time = 2\<rparr>, Inr (24, 4))
   \<and> (24 :: size_t) + 4 + 4 = 0 + ucast (32 :: uint32_t)
   \<and> unat (24 :: size_t) + unat (4 :: size_t) + 4 = unat (0 :: size_t) + unat (32 :: uint32_t)"
proof -
  from round_trip_bound [OF header_record_payload_4] obtain ev where
    "Some \<lparr>size_ev = 32, identifier = 1, creation_time = 2\<rparr> = Some ev"
    and "(24 :: size_t) + 4 + 4 = 0 + ucast (size_ev ev)"
    and "28 \<le> size_ev ev \<longrightarrow>
           unat (24 :: size_t) + unat (4 :: size_t) + 4 = unat (0 :: size_t) + unat (size_ev ev)"
    by blast
  with header_record_payload_4 show ?thesis by auto
qed

text \<open>
  C8. For a buffer as long as \<^verbatim>\<open>chunk_data_size\<close> says, a size within
  \<^verbatim>\<open>SSIZE_MAX\<close>, an offset inside the chunk and at least header size + 4 bytes
  from the offset on: when the 4 bytes at the offset differ from 2A 2A 00 00,
  the call fails with the unsupported signature error, whatever the other
  bytes, and leaves the event values as they were.
\<close>

theorem signature_gate:
  assumes "length data = unat chunk_data_size"
    and "chunk_data_size \<le> SSIZE_MAX"
    and "chunk_data_offset < chunk_data_size"
    and "of_nat (sizeof_evtx_event_record_header + 4) \<le> chunk_data_size - chunk_data_offset"
    and "take 4 (drop (unat chunk_data_offset) data) \<noteq> [0x2A, 0x2A, 0x00, 0x00]"
  shows "libevtx_event_values_read token (Some ev) True (Some data)
           chunk_data_size chunk_data_offset
         = Some (Some ev, Inl Unsupported_Signature)"
proof -
  from assms(4) have sz: "28 \<le> chunk_data_size - chunk_data_offset"
    by (simp add: sizeof_evtx_event_record_header_def)
  have "read_bytes data (unat chunk_data_offset + 0) 4
          = Some (take 4 (drop (unat chunk_data_offset + 0) data))"
    using assms(3) sz assms(1) by (rule read_in_header) simp
  then have rd: "read_bytes data (unat chunk_data_offset) 4
          = Some (take 4 (drop (unat chunk_data_offset) data))" by simp
  have "libevtx_event_values_read_header (Some ev) True (Some data)
           chunk_data_size chunk_data_offset = (Some ev, Inl Unsupported_Signature)"
    using assms(2,3,5) sz rd
    by (simp add: header_defs evtx_event_record_signature_def not_less [symmetric])
  then show ?thesis by (simp add: libevtx_event_values_read_def)
qed

theorem signature_gate_witness:
  "length record_no_signature = unat (32 :: size_t)
   \<and> (32 :: size_t) \<le> SSIZE_MAX
   \<and> (0 :: size_t) < 32
   \<and> of_nat (sizeof_evtx_event_record_header + 4) \<le> (32 :: size_t) - 0
   \<and> take 4 (drop (unat (0 :: size_t)) record_no_signature) \<noteq> [0x2A, 0x2A, 0x00, 0x00]
   \<and> libevtx_event_values_read (tokens_of_size 1) (Some event_values_zero) True
        (Some record_no_signature) 32 0
      = Some (Some event_values_zero, Inl Unsupported_Signature)"
proof -
  have h1: "length record_no_signature = unat (32 :: size_t)"
    by (simp add: record_no_signature_def)
  have h2: "(32 :: size_t) \<le> SSIZE_MAX" by (simp add: SSIZE_MAX_def)
  have h3: "(0 :: size_t) < 32" by simp
  have h4: "of_nat (sizeof_evtx_event_record_header + 4) \<le> (32 :: size_t) - 0"
    by (simp add: sizeof_evtx_event_record_header_def)
  have h5: "take 4 (drop (unat (0 :: size_t)) record_no_signature) \<noteq> [0x2A, 0x2A, 0x00, 0x00]"
    by (simp add: record_no_signature_def)
  from signature_gate [OF h1 h2 h3 h4 h5] h1 h2 h3 h4 h5 show ?thesis by blast
qed

text \<open>
  C9. On every successful call the 24 bytes of the header are inside the buffer
  and the stored fields are the little-endian values of its bytes: the size of
  the 4 bytes at record offset 4, the identifier of the 8 bytes at offset 8,
  the creation time of the 8 bytes at offset 16.
\<close>

theorem header_fields_little_endian:
  assumes "libevtx_event_values_read token event_values io_handle chunk_data
             chunk_data_size chunk_data_offset = Some (ev', Inr tokens)"
  shows "\<exists>data ev. chunk_data = Some data \<and> ev' = Some ev
     \<and> unat chunk_data_offset + sizeof_evtx_event_record_header \<le> length data
     \<and> unat (size_ev ev)
         = little_endian_value (take 4 (drop (unat chunk_data_offset + 4) data))
     \<and> unat (identifier ev)
         = little_endian_value (take 8 (drop (unat chunk_data_offset + 8) data))
     \<and> unat (creation_time ev)
         = little_endian_value (take 8 (drop (unat chunk_data_offset + 16) data))"
proof -
  from read_succeeds_header [OF assms] obtain po pl where
    "libevtx_event_values_read_header event_values io_handle chunk_data
       chunk_data_size chunk_data_offset = (ev', Inr (po, pl))" by blast
  from header_accepted [OF this] obtain ev data v1 v2 v3 where
    cd: "chunk_data = Some data"
    and c1: "byte_stream_copy_to_uint32_little_endian data (unat chunk_data_offset + 4) = Some v1"
    and c2: "byte_stream_copy_to_uint64_little_endian data (unat chunk_data_offset + 8) = Some v2"
    and c3: "byte_stream_copy_to_uint64_little_endian data (unat chunk_data_offset + 16) = Some v3"
    and ev': "ev' = Some (ev\<lparr>size_ev := v1, identifier := v2, creation_time := v3\<rparr>)"
    by blast
  from copy_uint32_value [OF c1] copy_uint64_value [OF c2] copy_uint64_value [OF c3]
  have "unat chunk_data_offset + 24 \<le> length data"
    and "unat v1 = little_endian_value (take 4 (drop (unat chunk_data_offset + 4) data))"
    and "unat v2 = little_endian_value (take 8 (drop (unat chunk_data_offset + 8) data))"
    and "unat v3 = little_endian_value (take 8 (drop (unat chunk_data_offset + 16) data))"
    by simp_all
  with cd ev' show ?thesis by (simp add: sizeof_evtx_event_record_header_def)
qed

theorem header_fields_little_endian_witness:
  "libevtx_event_values_read (tokens_of_size 16) (Some event_values_zero) True
       (Some record_payload_4) 40 0
     = Some (Some \<lparr>size_ev = 32, identifier = 1, creation_time = 2\<rparr>, Inr [16])
   \<and> unat (32 :: uint32_t) = little_endian_value (take 4 (drop 4 record_payload_4))
   \<and> unat (1 :: uint64_t) = little_endian_value (take 8 (drop 8 record_payload_4))
   \<and> unat (2 :: uint64_t) = little_endian_value (take 8 (drop 16 record_payload_4))"
proof -
  from header_fields_little_endian [OF read_record_payload_4] obtain data ev where
    "Some record_payload_4 = Some data"
    and "Some \<lparr>size_ev = 32, identifier = 1, creation_time = 2\<rparr> = Some ev"
    and "unat (size_ev ev)
         = little_endian_value (take 4 (drop (unat (0 :: size_t) + 4) data))"
    and "unat (identifier ev)
         = little_endian_value (take 8 (drop (unat (0 :: size_t) + 8) data))"
    and "unat (creation_time ev)
         = little_endian_value (take 8 (drop (unat (0 :: size_t) + 16) data))"
    by blast
  with read_record_payload_4 show ?thesis by auto
qed

text \<open>
  C10. Freeing event values through a non-NULL handle whose target is already
  NULL returns 1 and changes nothing; after any call of
  \<^verbatim>\<open>libevtx_event_values_free\<close> that returns 1 the target is NULL, so that a
  second call in succession returns 1 as well.
\<close>

theorem libevtx_event_values_free_idempotent:
  "libevtx_event_values_free (Some None) heap = (Inr (), Some None, heap)
   \<and> (libevtx_event_values_free event_values heap = (r, event_values', heap')
        \<and> return_code r = 1 \<longrightarrow>
        event_values' = Some None
        \<and> libevtx_event_values_free event_values' heap' = (Inr (), Some None, heap'))"
  by (auto simp: libevtx_event_values_free_def return_code_def split: option.splits)

theorem libevtx_event_values_free_idempotent_witness:
  "libevtx_event_values_free (Some (Some 7)) [7 \<mapsto> event_values_zero]
     = (Inr (), Some None, Map.empty)
   \<and> return_code (Inr () :: error + unit) = 1
   \<and> libevtx_event_values_free (Some None) Map.empty = (Inr (), Some None, Map.empty)"
  using libevtx_event_values_free_idempotent
    [where heap = "[7 \<mapsto> event_values_zero]" and event_values = "Some (Some 7)"
       and r = "Inr ()" and event_values' = "Some None" and heap' = Map.empty]
  by (simp add: libevtx_event_values_free_def return_code_def memory_free_def)

end
